theory Spec2Isabelle
  imports Complex_Main "HOL-Library.Word" "HOL-Library.Signed_Division"
begin

unbundle bit_operations_syntax

section \<open>Data model of the LMS303 driver\<close>

text \<open>
  The driver (\<^verbatim>\<open>LMS303.cpp\<close>) talks to the chip through the Linux I2C character
  device: every register transaction is \<^verbatim>\<open>open\<close>, \<^verbatim>\<open>ioctl(I2C_SLAVE)\<close>,
  \<^verbatim>\<open>write\<close>, possibly \<^verbatim>\<open>read\<close>, and \<^verbatim>\<open>close\<close>. The embedding keeps the
  driver object as a record, passes it explicitly, and threads the state of the
  outside world through every system call.
\<close>

type_synonym byte = "8 word"

subsection \<open>Floating-point values\<close>

text \<open>
  \<^verbatim>\<open>float\<close> and \<^verbatim>\<open>double\<close> values are modelled by the number they denote, extended
  by the IEEE 754 special values: a finite value is an exact real (rounding is not
  modelled, and the two signed zeros are identified), and the infinities and NaN arise
  and propagate as IEEE 754 prescribes. A zero divisor is taken to be \<open>+0\<close>; the only
  divisors of the driver are results of \<^verbatim>\<open>sqrt\<close>, which never returns \<open>-0\<close> for a sum
  of squares.
\<close>

datatype fp = Fin real | PInf | NInf | NaN

fun fp_mul :: "fp \<Rightarrow> fp \<Rightarrow> fp" where
  "fp_mul NaN _ = NaN"
| "fp_mul _ NaN = NaN"
| "fp_mul (Fin a) (Fin b) = Fin (a * b)"
| "fp_mul (Fin a) PInf = (if a = 0 then NaN else if 0 < a then PInf else NInf)"
| "fp_mul (Fin a) NInf = (if a = 0 then NaN else if 0 < a then NInf else PInf)"
| "fp_mul PInf (Fin b) = (if b = 0 then NaN else if 0 < b then PInf else NInf)"
| "fp_mul NInf (Fin b) = (if b = 0 then NaN else if 0 < b then NInf else PInf)"
| "fp_mul PInf PInf = PInf"
| "fp_mul PInf NInf = NInf"
| "fp_mul NInf PInf = NInf"
| "fp_mul NInf NInf = PInf"

fun fp_add :: "fp \<Rightarrow> fp \<Rightarrow> fp" where
  "fp_add NaN _ = NaN"
| "fp_add _ NaN = NaN"
| "fp_add (Fin a) (Fin b) = Fin (a + b)"
| "fp_add (Fin a) PInf = PInf"
| "fp_add (Fin a) NInf = NInf"
| "fp_add PInf (Fin b) = PInf"
| "fp_add NInf (Fin b) = NInf"
| "fp_add PInf PInf = PInf"
| "fp_add NInf NInf = NInf"
| "fp_add PInf NInf = NaN"
| "fp_add NInf PInf = NaN"

fun fp_div :: "fp \<Rightarrow> fp \<Rightarrow> fp" where
  "fp_div NaN _ = NaN"
| "fp_div _ NaN = NaN"
| "fp_div (Fin a) (Fin b) =
     (if b = 0 then (if a = 0 then NaN else if 0 < a then PInf else NInf)
      else Fin (a / b))"
| "fp_div (Fin a) PInf = Fin 0"
| "fp_div (Fin a) NInf = Fin 0"
| "fp_div PInf (Fin b) = (if 0 \<le> b then PInf else NInf)"
| "fp_div NInf (Fin b) = (if 0 \<le> b then NInf else PInf)"
| "fp_div PInf PInf = NaN"
| "fp_div PInf NInf = NaN"
| "fp_div NInf PInf = NaN"
| "fp_div NInf NInf = NaN"

fun fp_sqrt :: "fp \<Rightarrow> fp" where
  "fp_sqrt (Fin a) = (if a < 0 then NaN else Fin (sqrt a))"
| "fp_sqrt PInf = PInf"
| "fp_sqrt NInf = NaN"
| "fp_sqrt NaN = NaN"

fun fp_atan :: "fp \<Rightarrow> fp" where
  "fp_atan (Fin a) = Fin (arctan a)"
| "fp_atan PInf = Fin (pi / 2)"
| "fp_atan NInf = Fin (- (pi / 2))"
| "fp_atan NaN = NaN"

definition fp_of_int :: "int \<Rightarrow> fp" where
  "fp_of_int i = Fin (real_of_int i)"

subsection \<open>What the missing header fixes\<close>

text \<open>
  \<^verbatim>\<open>imu/LMS303.h\<close> is not part of the sources. The register addresses, the two
  buffer sizes and the numeric values of the scale enumerators it defines are
  parameters of the embedding, together with the one implementation-defined choice of
  the C++ compiler the driver depends on: whether plain \<^verbatim>\<open>char\<close> is signed (it is
  unsigned on the ARM target, signed on x86).
\<close>

datatype reg =
    REG_TEMP_OUT_L | REG_TEMP_OUT_H
  | REG_OUT_X_L_M | REG_OUT_X_H_M | REG_OUT_Y_L_M | REG_OUT_Y_H_M
  | REG_OUT_Z_L_M | REG_OUT_Z_H_M
  | REG_WHO_AM_I | REG_INT_CTRL_M
  | REG_CTRL0 | REG_CTRL1 | REG_CTRL2 | REG_CTRL3 | REG_CTRL4
  | REG_CTRL5 | REG_CTRL6 | REG_CTRL7
  | REG_STATUS_A
  | REG_OUT_X_L_A | REG_OUT_X_H_A | REG_OUT_Y_L_A | REG_OUT_Y_H_A
  | REG_OUT_Z_L_A | REG_OUT_Z_H_A
  | REG_FIFO_CTRL | REG_FIFO_SRC

datatype LMS303_ACCEL_FIFO_MODE = ACCEL_FIFO_BYPASS | ACCEL_FIFO_STREAM | ACCEL_FIFO_ERROR

text \<open>
  The scale setters take any value of the enumeration type, also one that is none of the
  enumerators (the \<^verbatim>\<open>default\<close> label of their \<^verbatim>\<open>switch\<close>): \<open>SCALE_ACCEL_other k\<close> and
  \<open>SCALE_MAG_other k\<close> stand for such a value \<open>k\<close>.
\<close>

datatype LMS303_ACCEL_SCALE =
    SCALE_ACCEL_2g | SCALE_ACCEL_4g | SCALE_ACCEL_6g | SCALE_ACCEL_8g | SCALE_ACCEL_16g
  | SCALE_ACCEL_other int

datatype LMS303_MAG_SCALE =
    SCALE_MAG_2gauss | SCALE_MAG_4gauss | SCALE_MAG_8gauss | SCALE_MAG_12gauss
  | SCALE_MAG_other int

record platform =
  char_signed :: bool
  reg_addr :: "reg \<Rightarrow> nat"
  LMS303_I2C_BUFFER :: nat
  ACCEL_FIFO_SIZE :: nat
  accel_scale_enum :: "LMS303_ACCEL_SCALE \<Rightarrow> int"
  mag_scale_enum :: "LMS303_MAG_SCALE \<Rightarrow> int"

text \<open>The value of a \<^verbatim>\<open>char\<close> after integral promotion.\<close>

definition char_to_int :: "platform \<Rightarrow> byte \<Rightarrow> int" where
  "char_to_int p c = (if char_signed p then sint c else uint c)"

text \<open>The numeric value of a scale argument, as \<^verbatim>\<open>(char)scale\<close> reads it.\<close>

definition accel_scale_value :: "platform \<Rightarrow> LMS303_ACCEL_SCALE \<Rightarrow> int" where
  "accel_scale_value p scale =
     (case scale of SCALE_ACCEL_other k \<Rightarrow> k | _ \<Rightarrow> accel_scale_enum p scale)"

definition mag_scale_value :: "platform \<Rightarrow> LMS303_MAG_SCALE \<Rightarrow> int" where
  "mag_scale_value p scale =
     (case scale of SCALE_MAG_other k \<Rightarrow> k | _ \<Rightarrow> mag_scale_enum p scale)"

subsection \<open>The driver object\<close>

record lms303 =
  I2CBus :: int
  I2CAddress :: int
  accelX :: fp
  accelY :: fp
  accelZ :: fp
  magX :: fp
  magY :: fp
  magZ :: fp
  celsius :: fp
  pitch :: fp
  roll :: fp
  accelScale :: fp
  magScale :: fp
  accelFIFOMode :: LMS303_ACCEL_FIFO_MODE
  dataBuffer :: "byte list"
  accelFIFO :: "byte list"

section \<open>The bus transport\<close>

text \<open>
  The outside world answers each system call. Its answers are not determined by the
  driver, so the world carries them as queues, one per system call, consumed in call
  order; an exhausted queue answers with failure. Besides the pending answers the world
  records the file descriptors that are open and every buffer handed to \<^verbatim>\<open>write\<close>.
\<close>

datatype read_outcome = ReadFail | ReadData "byte list"

record i2c_world =
  open_results :: "int list"
  ioctl_results :: "int list"
  write_results :: "int list"
  read_results :: "read_outcome list"
  open_fds :: "int list"
  frames :: "byte list list"

text \<open>\<^verbatim>\<open>open(namebuf, O_RDWR)\<close>: a descriptor, or a negative value.\<close>

definition sys_open :: "int \<Rightarrow> i2c_world \<Rightarrow> int \<times> i2c_world" where
  "sys_open bus w =
     (case open_results w of
        [] \<Rightarrow> (- 1, w)
      | fd # rest \<Rightarrow>
          (fd, w\<lparr>open_results := rest,
                 open_fds := (if fd < 0 then open_fds w else fd # open_fds w)\<rparr>))"

text \<open>\<^verbatim>\<open>ioctl(file, I2C_SLAVE, I2CAddress)\<close>.\<close>

definition sys_ioctl :: "int \<Rightarrow> int \<Rightarrow> i2c_world \<Rightarrow> int \<times> i2c_world" where
  "sys_ioctl file address w =
     (case ioctl_results w of
        [] \<Rightarrow> (- 1, w)
      | r # rest \<Rightarrow> (r, w\<lparr>ioctl_results := rest\<rparr>))"

text \<open>\<^verbatim>\<open>write(file, buffer, n)\<close>: the number of bytes written, or a negative value.\<close>

definition sys_write :: "int \<Rightarrow> byte list \<Rightarrow> i2c_world \<Rightarrow> int \<times> i2c_world" where
  "sys_write file buffer w =
     (case write_results w of
        [] \<Rightarrow> (- 1, w\<lparr>frames := frames w @ [buffer]\<rparr>)
      | r # rest \<Rightarrow> (r, w\<lparr>write_results := rest, frames := frames w @ [buffer]\<rparr>))"

text \<open>
  \<^verbatim>\<open>read(file, data, size)\<close>: the bytes delivered overwrite the front of \<open>data\<close>, the
  rest of \<open>data\<close> keeps its contents; the result is the number of bytes delivered, or
  negative.
\<close>

definition sys_read :: "int \<Rightarrow> byte list \<Rightarrow> nat \<Rightarrow> i2c_world \<Rightarrow> int \<times> byte list \<times> i2c_world" where
  "sys_read file data sz w =
     (case read_results w of
        [] \<Rightarrow> (- 1, data, w)
      | ReadFail # rest \<Rightarrow> (- 1, data, w\<lparr>read_results := rest\<rparr>)
      | ReadData bs # rest \<Rightarrow>
          (let got = take sz bs
           in (int (length got), got @ drop (length got) data, w\<lparr>read_results := rest\<rparr>)))"

definition sys_close :: "int \<Rightarrow> i2c_world \<Rightarrow> i2c_world" where
  "sys_close file w = w\<lparr>open_fds := remove1 file (open_fds w)\<rparr>"

subsection \<open>Register access\<close>

text \<open>
  \<^verbatim>\<open>ROS_ERROR\<close> and \<^verbatim>\<open>ROS_DEBUG\<close> only log; they are left out. The result is the
  source's \<^verbatim>\<open>int\<close> return code.
\<close>

definition writeI2CDeviceByte :: "lms303 \<Rightarrow> byte \<Rightarrow> byte \<Rightarrow> i2c_world \<Rightarrow> int \<times> i2c_world" where
  "writeI2CDeviceByte s address val w =
     (let (file, w1) = sys_open (I2CBus s) w in
      if file < 0 then (1, w1)
      else
        let (r, w2) = sys_ioctl file (I2CAddress s) w1 in
        if r < 0 then (2, w2)
        else
          let (n, w3) = sys_write file [address, val] w2 in
          if n \<noteq> 2 then (3, w3)
          else (0, sys_close file w3))"

text \<open>
  \<open>data\<close> is the destination array from the address the caller passes onwards;
  the updated array is returned with the return code (\<open>sz\<close> is the source's \<^verbatim>\<open>size\<close>).
\<close>

definition readI2CDevice ::
  "lms303 \<Rightarrow> byte \<Rightarrow> byte list \<Rightarrow> int \<Rightarrow> i2c_world \<Rightarrow> int \<times> byte list \<times> i2c_world" where
  "readI2CDevice s address data sz w =
     (let (file, w1) = sys_open (I2CBus s) w in
      if file < 0 then (1, data, w1)
      else
        let (r, w2) = sys_ioctl file (I2CAddress s) w1 in
        if r < 0 then (2, data, w2)
        else
          let temp = (if sz > 1 then address OR 0x80 else address);
              (n, w3) = sys_write file [temp] w2;
              (m, data', w4) = sys_read file data (nat sz) w3
          in (0, data', sys_close file w4))"

section \<open>Conversion and geometry\<close>

text \<open>
  The expression \<^verbatim>\<open>(hi << 8) | lo\<close> on two \<^verbatim>\<open>char\<close> operands, stored in a
  \<^verbatim>\<open>short\<close>: both operands are promoted to \<^verbatim>\<open>int\<close> (with sign extension where
  \<^verbatim>\<open>char\<close> is signed), and the result is cut to 16 bits.
\<close>

definition short_of_bytes :: "platform \<Rightarrow> byte \<Rightarrow> byte \<Rightarrow> 16 word" where
  "short_of_bytes p hi lo = word_of_int (push_bit 8 (char_to_int p hi) OR char_to_int p lo)"

text \<open>\<^verbatim>\<open>convertAcceleration(int msb_reg_addr, int lsb_reg_addr)\<close>\<close>

definition convertAcceleration_regs :: "platform \<Rightarrow> lms303 \<Rightarrow> nat \<Rightarrow> nat \<Rightarrow> fp" where
  "convertAcceleration_regs p s msb_reg_addr lsb_reg_addr =
     (let temp = short_of_bytes p (dataBuffer s ! msb_reg_addr) (dataBuffer s ! lsb_reg_addr)
      in fp_mul (fp_of_int (sint temp)) (accelScale s))"

text \<open>\<^verbatim>\<open>convertAcceleration(int accel)\<close>\<close>

definition convertAcceleration :: "lms303 \<Rightarrow> int \<Rightarrow> fp" where
  "convertAcceleration s accel = fp_mul (fp_of_int accel) (accelScale s)"

definition convertMagnetism :: "platform \<Rightarrow> lms303 \<Rightarrow> nat \<Rightarrow> nat \<Rightarrow> fp" where
  "convertMagnetism p s msb_reg_addr lsb_reg_addr =
     (let temp = short_of_bytes p (dataBuffer s ! msb_reg_addr) (dataBuffer s ! lsb_reg_addr)
      in fp_mul (fp_of_int (sint temp)) (magScale s))"

text \<open>
  \<open>getTemperature\<close> stores its result in \<open>celsius\<close> and returns it; the model returns the
  updated object.
\<close>

definition getTemperature :: "platform \<Rightarrow> lms303 \<Rightarrow> lms303" where
  "getTemperature p s =
     (let temp = short_of_bytes p (dataBuffer s ! reg_addr p REG_TEMP_OUT_H)
                                  (dataBuffer s ! reg_addr p REG_TEMP_OUT_L);
          (temp', sign) = (if temp AND 0x0800 \<noteq> 0 then (temp XOR 0x0FFF, Fin (- 1))
                           else (temp AND 0x0FFF, Fin 1))
      in s\<lparr>celsius := fp_add (fp_mul sign (fp_div (fp_of_int (sint temp')) (Fin 8))) (Fin 25)\<rparr>)"

definition calculatePitchAndRoll :: "lms303 \<Rightarrow> lms303" where
  "calculatePitchAndRoll s =
     (let accelXSquared = fp_mul (accelX s) (accelX s);
          accelYSquared = fp_mul (accelY s) (accelY s);
          accelZSquared = fp_mul (accelZ s) (accelZ s);
          pitch' = fp_div (fp_mul (Fin 180)
                     (fp_atan (fp_div (accelX s) (fp_sqrt (fp_add accelYSquared accelZSquared)))))
                     (Fin pi);
          roll' = fp_div (fp_mul (Fin 180)
                     (fp_atan (fp_div (accelY s) (fp_sqrt (fp_add accelXSquared accelZSquared)))))
                     (Fin pi)
      in s\<lparr>pitch := pitch', roll := roll'\<rparr>)"

section \<open>Configuration\<close>

text \<open>A register address as the \<^verbatim>\<open>char address\<close> argument of the access functions.\<close>

definition reg_byte :: "platform \<Rightarrow> reg \<Rightarrow> byte" where
  "reg_byte p r = of_nat (reg_addr p r)"

definition enableTempSensor :: "platform \<Rightarrow> lms303 \<Rightarrow> i2c_world \<Rightarrow> int \<times> i2c_world" where
  "enableTempSensor p s w =
     (let (r, buf, w1) = readI2CDevice s (reg_byte p REG_CTRL5) [0x00] 1 w;
          buf0 = hd buf OR 0x80;
          (rc, w2) = writeI2CDeviceByte s (reg_byte p REG_CTRL5) buf0 w1
      in if rc \<noteq> 0 then (1, w2) else (0, w2))"

definition setMagScale ::
  "platform \<Rightarrow> lms303 \<Rightarrow> LMS303_MAG_SCALE \<Rightarrow> i2c_world \<Rightarrow> int \<times> lms303 \<times> i2c_world" where
  "setMagScale p s scale w =
     (let buf = push_bit 5 (word_of_int (mag_scale_value p scale) :: byte) AND 0x60;
          (rc, w1) = writeI2CDeviceByte s (reg_byte p REG_CTRL6) buf w
      in if rc \<noteq> 0 then (1, s\<lparr>magScale := Fin 0\<rparr>, w1)
         else (case scale of
                 SCALE_MAG_2gauss \<Rightarrow> (0, s\<lparr>magScale := Fin 0.00008\<rparr>, w1)
               | SCALE_MAG_4gauss \<Rightarrow> (0, s\<lparr>magScale := Fin 0.00016\<rparr>, w1)
               | SCALE_MAG_8gauss \<Rightarrow> (0, s\<lparr>magScale := Fin 0.00032\<rparr>, w1)
               | SCALE_MAG_12gauss \<Rightarrow> (0, s\<lparr>magScale := Fin 0.000479\<rparr>, w1)
               | SCALE_MAG_other k \<Rightarrow> (1, s\<lparr>magScale := Fin 0\<rparr>, w1)))"

text \<open>
  \<open>setAccelScale\<close> declares \<^verbatim>\<open>char buf[1]\<close> without an initialiser; \<open>uninit\<close> is
  the byte that happens to be there, which survives a read that delivers nothing.
\<close>

definition setAccelScale ::
  "platform \<Rightarrow> lms303 \<Rightarrow> LMS303_ACCEL_SCALE \<Rightarrow> byte \<Rightarrow> i2c_world \<Rightarrow> int \<times> lms303 \<times> i2c_world" where
  "setAccelScale p s scale uninit w =
     (let (r, buf, w1) = readI2CDevice s (reg_byte p REG_CTRL2) [uninit] 1 w;
          buf0 = (hd buf AND 0b11000111)
                   OR push_bit 3 (word_of_int (accel_scale_value p scale) :: byte);
          (rc, w2) = writeI2CDeviceByte s (reg_byte p REG_CTRL2) buf0 w1
      in if rc \<noteq> 0 then (1, s\<lparr>accelScale := Fin 0\<rparr>, w2)
         else (case scale of
                 SCALE_ACCEL_2g \<Rightarrow> (0, s\<lparr>accelScale := Fin 0.000061\<rparr>, w2)
               | SCALE_ACCEL_4g \<Rightarrow> (0, s\<lparr>accelScale := Fin 0.000122\<rparr>, w2)
               | SCALE_ACCEL_6g \<Rightarrow> (0, s\<lparr>accelScale := Fin 0.000183\<rparr>, w2)
               | SCALE_ACCEL_8g \<Rightarrow> (0, s\<lparr>accelScale := Fin 0.000244\<rparr>, w2)
               | SCALE_ACCEL_16g \<Rightarrow> (0, s\<lparr>accelScale := Fin 0.000732\<rparr>, w2)
               | SCALE_ACCEL_other k \<Rightarrow> (1, s\<lparr>accelScale := Fin 0\<rparr>, w2)))"

definition getAccelFIFOMode ::
  "platform \<Rightarrow> lms303 \<Rightarrow> i2c_world \<Rightarrow> LMS303_ACCEL_FIFO_MODE \<times> i2c_world" where
  "getAccelFIFOMode p s w =
     (let (r, val, w1) = readI2CDevice s (reg_byte p REG_FIFO_CTRL) [0x00] 1 w;
          v = char_to_int p (hd val)
      in if v = 0x00 then (ACCEL_FIFO_BYPASS, w1)
         else if v = 0x40 then (ACCEL_FIFO_STREAM, w1)
         else (ACCEL_FIFO_ERROR, w1))"

definition setAccelFIFOMode ::
  "platform \<Rightarrow> lms303 \<Rightarrow> LMS303_ACCEL_FIFO_MODE \<Rightarrow> i2c_world \<Rightarrow> int \<times> lms303 \<times> i2c_world" where
  "setAccelFIFOMode p s mode w =
     (let (r, val, w1) = readI2CDevice s (reg_byte p REG_CTRL0) [0x00] 1 w;
          (val0, w2) =
            (case mode of
               ACCEL_FIFO_BYPASS \<Rightarrow> (0x00, w1)
             | ACCEL_FIFO_STREAM \<Rightarrow>
                 (0x40, snd (writeI2CDeviceByte s (reg_byte p REG_CTRL0) (0x40 OR 0x40) w1))
             | ACCEL_FIFO_ERROR \<Rightarrow> (0x00, w1));
          (rc, w3) = writeI2CDeviceByte s (reg_byte p REG_FIFO_CTRL) val0 w2;
          (m, w4) = getAccelFIFOMode p s w3
      in if m \<noteq> mode then (0, s, w4)
         else (0, s\<lparr>accelFIFOMode := mode\<rparr>, w4))"

section \<open>The read pipeline\<close>

text \<open>
  \<^verbatim>\<open>readI2CDevice(a, &buf[off], sz)\<close>: the destination is \<open>buf\<close> from index \<open>off\<close>
  onwards. The source does not check that the destination fits the array; the model
  stands for the code where it does.
\<close>

definition readI2CDevice_at ::
  "lms303 \<Rightarrow> byte \<Rightarrow> byte list \<Rightarrow> nat \<Rightarrow> int \<Rightarrow> i2c_world \<Rightarrow> int \<times> byte list \<times> i2c_world" where
  "readI2CDevice_at s address buf off sz w =
     (let (r, data, w1) = readI2CDevice s address (drop off buf) sz w
      in (r, take off buf @ data, w1))"

text \<open>
  \<open>readAccelFIFO\<close> ignores its \<^verbatim>\<open>buffer\<close> argument and fills the member \<open>accelFIFO\<close>.
\<close>

definition readAccelFIFO :: "platform \<Rightarrow> lms303 \<Rightarrow> i2c_world \<Rightarrow> int \<times> lms303 \<times> i2c_world" where
  "readAccelFIFO p s w =
     (let (r, val, w1) = readI2CDevice s (reg_byte p REG_FIFO_SRC) [0x00] 1 w;
          val0 = hd val AND 0x0F;
          (r', fifo, w2) = readI2CDevice s (reg_byte p REG_OUT_X_L_A) (accelFIFO s)
                             (int (ACCEL_FIFO_SIZE p)) w1
      in (char_to_int p val0 + 1, s\<lparr>accelFIFO := fifo\<rparr>, w2))"

text \<open>
  One pass of the loop body of \<open>averageAccelFIFO\<close> for slot \<open>i\<close>: the three samples are
  rebuilt, \<^verbatim>\<open>~temp + 1\<close> is stored back into the \<^verbatim>\<open>short\<close>, and its value is added
  to the running sums. The sums are C \<^verbatim>\<open>int\<close>s, modelled as integers; lemma
  \<open>averageAccelFIFO_sums_bound\<close> below shows that they stay within 32 bits for every
  slot count below 65536.
\<close>

definition averageAccelFIFO_step ::
  "platform \<Rightarrow> byte list \<Rightarrow> nat \<Rightarrow> int \<times> int \<times> int \<Rightarrow> int \<times> int \<times> int" where
  "averageAccelFIFO_step p fifo i acc =
     (let (sumX, sumY, sumZ) = acc;
          tempX = (NOT (short_of_bytes p (fifo ! (i * 6 + 1)) (fifo ! (i * 6)))) + 1;
          tempY = (NOT (short_of_bytes p (fifo ! (i * 6 + 3)) (fifo ! (i * 6 + 2)))) + 1;
          tempZ = (NOT (short_of_bytes p (fifo ! (i * 6 + 5)) (fifo ! (i * 6 + 4)))) + 1
      in (sumX + sint tempX, sumY + sint tempY, sumZ + sint tempZ))"

text \<open>\<^verbatim>\<open>sumX / slots\<close> is C's division, which truncates towards zero: \<open>sdiv\<close>.\<close>

definition averageAccelFIFO :: "platform \<Rightarrow> lms303 \<Rightarrow> int \<Rightarrow> int \<times> lms303" where
  "averageAccelFIFO p s slots =
     (if slots \<le> 0 then (1, s)
      else
        let (sumX, sumY, sumZ) =
              fold (averageAccelFIFO_step p (accelFIFO s)) [0..<nat slots] (0, 0, 0);
            s1 = s\<lparr>accelX := convertAcceleration s (sumX sdiv slots)\<rparr>;
            s2 = s1\<lparr>accelY := convertAcceleration s1 (sumY sdiv slots)\<rparr>;
            s3 = s2\<lparr>accelZ := convertAcceleration s2 (sumZ sdiv slots)\<rparr>
        in (0, s3))"

definition readFullSensorState :: "platform \<Rightarrow> lms303 \<Rightarrow> i2c_world \<Rightarrow> int \<times> lms303 \<times> i2c_world" where
  "readFullSensorState p s w =
     (let (s', w') =
        (if accelFIFOMode s = ACCEL_FIFO_STREAM then
           let (r1, b1, w1) = readI2CDevice_at s (reg_byte p REG_TEMP_OUT_L) (dataBuffer s)
                 (reg_addr p REG_TEMP_OUT_L)
                 ((int (reg_addr p REG_OUT_Z_H_M) - int (reg_addr p REG_TEMP_OUT_L)) + 1) w;
               (r2, b2, w2) = readI2CDevice_at s (reg_byte p REG_WHO_AM_I) b1
                 (reg_addr p REG_WHO_AM_I) 1 w1;
               (r3, b3, w3) = readI2CDevice_at s (reg_byte p REG_INT_CTRL_M) b2
                 (reg_addr p REG_INT_CTRL_M)
                 ((int (reg_addr p REG_STATUS_A) - int (reg_addr p REG_INT_CTRL_M)) + 1) w2;
               (r4, b4, w4) = readI2CDevice_at s (reg_byte p REG_FIFO_CTRL) b3
                 (reg_addr p REG_FIFO_CTRL)
                 (int (LMS303_I2C_BUFFER p) - int (reg_addr p REG_FIFO_CTRL)) w3;
               (slotsRead, s5, w5) = readAccelFIFO p (s\<lparr>dataBuffer := b4\<rparr>) w4;
               (ra, s6) = averageAccelFIFO p s5 slotsRead
           in (s6, w5)
         else
           let (r1, b1, w1) = readI2CDevice_at s (reg_byte p REG_WHO_AM_I) (dataBuffer s)
                 (reg_addr p REG_WHO_AM_I)
                 (int (LMS303_I2C_BUFFER p) - int (reg_addr p REG_WHO_AM_I)) w;
               s1 = s\<lparr>dataBuffer := b1\<rparr>;
               s2 = s1\<lparr>accelX := convertAcceleration_regs p s1
                       (reg_addr p REG_OUT_X_H_A) (reg_addr p REG_OUT_X_L_A)\<rparr>;
               s3 = s2\<lparr>accelY := convertAcceleration_regs p s2
                       (reg_addr p REG_OUT_Y_H_A) (reg_addr p REG_OUT_Y_L_A)\<rparr>;
               s4 = s3\<lparr>accelZ := convertAcceleration_regs p s3
                       (reg_addr p REG_OUT_Z_H_A) (reg_addr p REG_OUT_Z_L_A)\<rparr>
           in (s4, w1))
      in if char_to_int p (dataBuffer s' ! reg_addr p REG_WHO_AM_I) \<noteq> 0x49 then (1, s', w')
         else
           let t1 = getTemperature p s';
               t2 = t1\<lparr>magX := convertMagnetism p t1
                       (reg_addr p REG_OUT_X_H_M) (reg_addr p REG_OUT_X_L_M)\<rparr>;
               t3 = t2\<lparr>magY := convertMagnetism p t2
                       (reg_addr p REG_OUT_Y_H_M) (reg_addr p REG_OUT_Y_L_M)\<rparr>;
               t4 = t3\<lparr>magZ := convertMagnetism p t3
                       (reg_addr p REG_OUT_Z_H_M) (reg_addr p REG_OUT_Z_L_M)\<rparr>
           in (0, calculatePitchAndRoll t4, w'))"

section \<open>Reference definitions for the statements\<close>

text \<open>The scale factors the specification documents, per enumerator.\<close>

definition documented_accel_scale :: "LMS303_ACCEL_SCALE \<Rightarrow> real option" where
  "documented_accel_scale scale =
     (case scale of
        SCALE_ACCEL_2g \<Rightarrow> Some 0.000061
      | SCALE_ACCEL_4g \<Rightarrow> Some 0.000122
      | SCALE_ACCEL_6g \<Rightarrow> Some 0.000183
      | SCALE_ACCEL_8g \<Rightarrow> Some 0.000244
      | SCALE_ACCEL_16g \<Rightarrow> Some 0.000732
      | SCALE_ACCEL_other k \<Rightarrow> None)"

definition documented_mag_scale :: "LMS303_MAG_SCALE \<Rightarrow> real option" where
  "documented_mag_scale scale =
     (case scale of
        SCALE_MAG_2gauss \<Rightarrow> Some 0.00008
      | SCALE_MAG_4gauss \<Rightarrow> Some 0.00016
      | SCALE_MAG_8gauss \<Rightarrow> Some 0.00032
      | SCALE_MAG_12gauss \<Rightarrow> Some 0.000479
      | SCALE_MAG_other k \<Rightarrow> None)"

text \<open>
  A register write issued in world \<open>w\<close> succeeds. The outcome depends on the answers of
  the bus only, not on the register or the value (lemma \<open>writeI2CDeviceByte_result\<close>).
\<close>

definition register_write_ok :: "lms303 \<Rightarrow> i2c_world \<Rightarrow> bool" where
  "register_write_ok s w = (fst (writeI2CDeviceByte s 0 0 w) = 0)"

text \<open>
  The FIFO average as the specification words it. \<open>fifo_sample fifo i a\<close> is the 16-bit
  value \<^verbatim>\<open>(high << 8) | low\<close> of axis \<open>a\<close> (0, 1, 2 for X, Y, Z) in entry \<open>i\<close>
  of the buffer, \<open>negated_sample\<close> its complement plus one read as a signed value, and
  \<open>averaged_axis\<close> the truncating quotient of the sum over the first \<open>slots\<close> entries.
\<close>

definition fifo_sample :: "byte list \<Rightarrow> nat \<Rightarrow> nat \<Rightarrow> 16 word" where
  "fifo_sample fifo i a =
     push_bit 8 (ucast (fifo ! (6 * i + 2 * a + 1))) OR ucast (fifo ! (6 * i + 2 * a))"

definition negated_sample :: "byte list \<Rightarrow> nat \<Rightarrow> nat \<Rightarrow> int" where
  "negated_sample fifo i a = sint ((NOT (fifo_sample fifo i a)) + 1)"

definition averaged_axis :: "byte list \<Rightarrow> int \<Rightarrow> nat \<Rightarrow> int" where
  "averaged_axis fifo slots a =
     sum_list (map (\<lambda>i. negated_sample fifo i a) [0..<nat slots]) sdiv slots"

section \<open>Concrete inputs\<close>

text \<open>A driver object with every reading at zero, used where a theorem is evaluated.\<close>

definition sample_dev :: lms303 where
  "sample_dev =
     \<lparr>I2CBus = 1, I2CAddress = 0x1d,
      accelX = Fin 0, accelY = Fin 0, accelZ = Fin 0,
      magX = Fin 0, magY = Fin 0, magZ = Fin 0,
      celsius = Fin 0, pitch = Fin 0, roll = Fin 0,
      accelScale = Fin 0, magScale = Fin 0,
      accelFIFOMode = ACCEL_FIFO_BYPASS,
      dataBuffer = replicate 64 0, accelFIFO = replicate 192 0\<rparr>"

text \<open>
  The register map of the LSM303D data sheet the source refers to, with the scale
  enumerators numbered as the chip's scale-selection bit fields, a register buffer of 64
  bytes, a FIFO buffer of 32 slots, and the unsigned \<^verbatim>\<open>char\<close> of the ARM target.
\<close>

fun lsm303d_addr :: "reg \<Rightarrow> nat" where
  "lsm303d_addr REG_TEMP_OUT_L = 0x05"
| "lsm303d_addr REG_TEMP_OUT_H = 0x06"
| "lsm303d_addr REG_OUT_X_L_M = 0x08"
| "lsm303d_addr REG_OUT_X_H_M = 0x09"
| "lsm303d_addr REG_OUT_Y_L_M = 0x0A"
| "lsm303d_addr REG_OUT_Y_H_M = 0x0B"
| "lsm303d_addr REG_OUT_Z_L_M = 0x0C"
| "lsm303d_addr REG_OUT_Z_H_M = 0x0D"
| "lsm303d_addr REG_WHO_AM_I = 0x0F"
| "lsm303d_addr REG_INT_CTRL_M = 0x12"
| "lsm303d_addr REG_CTRL0 = 0x1F"
| "lsm303d_addr REG_CTRL1 = 0x20"
| "lsm303d_addr REG_CTRL2 = 0x21"
| "lsm303d_addr REG_CTRL3 = 0x22"
| "lsm303d_addr REG_CTRL4 = 0x23"
| "lsm303d_addr REG_CTRL5 = 0x24"
| "lsm303d_addr REG_CTRL6 = 0x25"
| "lsm303d_addr REG_CTRL7 = 0x26"
| "lsm303d_addr REG_STATUS_A = 0x27"
| "lsm303d_addr REG_OUT_X_L_A = 0x28"
| "lsm303d_addr REG_OUT_X_H_A = 0x29"
| "lsm303d_addr REG_OUT_Y_L_A = 0x2A"
| "lsm303d_addr REG_OUT_Y_H_A = 0x2B"
| "lsm303d_addr REG_OUT_Z_L_A = 0x2C"
| "lsm303d_addr REG_OUT_Z_H_A = 0x2D"
| "lsm303d_addr REG_FIFO_CTRL = 0x2E"
| "lsm303d_addr REG_FIFO_SRC = 0x2F"

fun lsm303d_accel_scale :: "LMS303_ACCEL_SCALE \<Rightarrow> int" where
  "lsm303d_accel_scale SCALE_ACCEL_2g = 0"
| "lsm303d_accel_scale SCALE_ACCEL_4g = 1"
| "lsm303d_accel_scale SCALE_ACCEL_6g = 2"
| "lsm303d_accel_scale SCALE_ACCEL_8g = 3"
| "lsm303d_accel_scale SCALE_ACCEL_16g = 4"
| "lsm303d_accel_scale (SCALE_ACCEL_other k) = k"

fun lsm303d_mag_scale :: "LMS303_MAG_SCALE \<Rightarrow> int" where
  "lsm303d_mag_scale SCALE_MAG_2gauss = 0"
| "lsm303d_mag_scale SCALE_MAG_4gauss = 1"
| "lsm303d_mag_scale SCALE_MAG_8gauss = 2"
| "lsm303d_mag_scale SCALE_MAG_12gauss = 3"
| "lsm303d_mag_scale (SCALE_MAG_other k) = k"

definition lsm303d :: platform where
  "lsm303d =
     \<lparr>char_signed = False, reg_addr = lsm303d_addr,
      LMS303_I2C_BUFFER = 0x40, ACCEL_FIFO_SIZE = 192,
      accel_scale_enum = lsm303d_accel_scale, mag_scale_enum = lsm303d_mag_scale\<rparr>"

text \<open>A bus on which every \<^verbatim>\<open>open\<close> fails.\<close>

definition dead_bus :: i2c_world where
  "dead_bus =
     \<lparr>open_results = [], ioctl_results = [], write_results = [], read_results = [],
      open_fds = [], frames = []\<rparr>"

text \<open>
  A bus on which \<^verbatim>\<open>open\<close> and \<^verbatim>\<open>ioctl\<close> succeed, every \<^verbatim>\<open>write\<close> transfers the
  \<open>n\<close> bytes it is given credit for in \<open>ws\<close>, and the reads deliver \<open>rs\<close>.
\<close>

definition live_bus :: "int list \<Rightarrow> read_outcome list \<Rightarrow> i2c_world" where
  "live_bus ws rs =
     \<lparr>open_results = [3, 3, 3, 3, 3, 3, 3, 3], ioctl_results = [0, 0, 0, 0, 0, 0, 0, 0],
      write_results = ws, read_results = rs, open_fds = [], frames = []\<rparr>"

text \<open>
  Four FIFO entries with X samples 1, 2, 3, 5, Y samples \<open>-1\<close>, \<open>-1\<close>, \<open>-1\<close>, \<open>-2\<close> and
  Z samples 0x4000, in a driver object scaled for \<open>\<plusminus>8 g\<close>.
\<close>

definition fifo_dev :: lms303 where
  "fifo_dev = sample_dev
     \<lparr>accelScale := Fin 0.000244,
      accelFIFO := [0x01, 0x00, 0xFF, 0xFF, 0x00, 0x40,
                    0x02, 0x00, 0xFF, 0xFF, 0x00, 0x40,
                    0x03, 0x00, 0xFF, 0xFF, 0x00, 0x40,
                    0x05, 0x00, 0xFE, 0xFF, 0x00, 0x40] @ replicate 168 0\<rparr>"

text \<open>
  A poll in bypass mode on a working bus: the burst from WHO_AM_I to the end of the
  register map delivers 49 bytes, all zero except OUT_X_L_A = 1, so the identity byte
  is 0x00 and the X sample is 1.
\<close>

definition desync_dev :: lms303 where
  "desync_dev = sample_dev\<lparr>accelScale := Fin 0.000244\<rparr>"

definition desync_bus :: i2c_world where
  "desync_bus = live_bus [1] [ReadData ((replicate 49 0)[25 := 1])]"

text \<open>
  The same poll with the identity byte 0x49 and a Z sample of 0x1000, 4096 counts.
\<close>

definition sync_bus :: i2c_world where
  "sync_bus = live_bus [1] [ReadData ((replicate 49 0)[0 := 0x49, 30 := 0x10])]"

section \<open>Properties of register access\<close>

lemmas sys_defs = sys_open_def sys_ioctl_def sys_write_def sys_read_def sys_close_def

text \<open>
  The return code of \<open>readI2CDevice\<close> depends on \<^verbatim>\<open>open\<close> and \<^verbatim>\<open>ioctl\<close> only: the
  results of \<^verbatim>\<open>write\<close> and \<^verbatim>\<open>read\<close> are compared and logged, never returned.
\<close>

lemma readI2CDevice_result:
  "fst (readI2CDevice s a d n w) =
     (case open_results w of
        [] \<Rightarrow> 1
      | fd # _ \<Rightarrow>
          if fd < 0 then 1
          else (case ioctl_results w of [] \<Rightarrow> 2 | r # _ \<Rightarrow> if r < 0 then 2 else 0))"
  by (simp add: readI2CDevice_def sys_defs Let_def
      split: list.splits prod.splits read_outcome.splits)

text \<open>
  Which exits leave the set of open descriptors as it was. \<open>writeI2CDeviceByte\<close>
  does so when it succeeds (it has closed its descriptor) and when \<^verbatim>\<open>open\<close> fails
  (there is none), not when it returns 2 or 3; \<open>readI2CDevice\<close> does so unless it
  returns 2.
\<close>

lemma writeI2CDeviceByte_leak_iff:
  "open_fds (snd (writeI2CDeviceByte s a v w)) = open_fds w
     \<longleftrightarrow> fst (writeI2CDeviceByte s a v w) = 0 \<or> fst (writeI2CDeviceByte s a v w) = 1"
  by (auto simp add: writeI2CDeviceByte_def sys_defs Let_def
      split: list.splits prod.splits if_splits)

lemma readI2CDevice_leak_iff:
  "open_fds (snd (snd (readI2CDevice s a d n w))) = open_fds w
     \<longleftrightarrow> fst (readI2CDevice s a d n w) \<noteq> 2"
  by (auto simp add: readI2CDevice_def sys_defs Let_def
      split: list.splits prod.splits if_splits read_outcome.splits)

text \<open>
  C5 (the bus handle is closed on every exit path of \<open>writeI2CDeviceByte\<close> and
  \<open>readI2CDevice\<close>). The code does not do this: the early returns after a failed
  \<^verbatim>\<open>ioctl\<close> (both functions, return code 2) and after a failed \<^verbatim>\<open>write\<close>
  (\<open>writeI2CDeviceByte\<close>, return code 3) skip the \<^verbatim>\<open>close\<close>. Evaluated on a bus
  where \<^verbatim>\<open>open\<close> yields descriptor 3: the descriptor is still open when the call
  returns.
\<close>

theorem register_access_leaves_handle_open:
  "writeI2CDeviceByte sample_dev 0x24 0x80
     \<lparr>open_results = [3], ioctl_results = [- 1], write_results = [], read_results = [],
      open_fds = [], frames = []\<rparr>
   = (2, \<lparr>open_results = [], ioctl_results = [], write_results = [], read_results = [],
          open_fds = [3], frames = []\<rparr>)
   \<and> writeI2CDeviceByte sample_dev 0x24 0x80
     \<lparr>open_results = [3], ioctl_results = [0], write_results = [- 1], read_results = [],
      open_fds = [], frames = []\<rparr>
   = (3, \<lparr>open_results = [], ioctl_results = [], write_results = [], read_results = [],
          open_fds = [3], frames = [[0x24, 0x80]]\<rparr>)
   \<and> readI2CDevice sample_dev 0x24 [0] 1
     \<lparr>open_results = [3], ioctl_results = [- 1], write_results = [], read_results = [],
      open_fds = [], frames = []\<rparr>
   = (2, [0], \<lparr>open_results = [], ioctl_results = [], write_results = [], read_results = [],
          open_fds = [3], frames = []\<rparr>)"
  by (simp add: writeI2CDeviceByte_def readI2CDevice_def sys_defs sample_dev_def)

text \<open>
  C6 (\<open>readI2CDevice\<close> returns a failure indication whenever the read of the requested
  bytes fails). The code does not do this: a \<^verbatim>\<open>read\<close> that fails is logged and the
  function goes on to return 0. Evaluated on a bus where \<^verbatim>\<open>open\<close>, \<^verbatim>\<open>ioctl\<close> and
  the address write succeed and \<^verbatim>\<open>read\<close> fails: the result is 0 and the caller's
  buffer is returned as it was.
\<close>

theorem readI2CDevice_failed_read_returns_0:
  "readI2CDevice sample_dev 0x24 [0] 1
     \<lparr>open_results = [3], ioctl_results = [0], write_results = [1],
      read_results = [ReadFail], open_fds = [], frames = []\<rparr>
   = (0, [0], \<lparr>open_results = [], ioctl_results = [], write_results = [], read_results = [],
          open_fds = [], frames = [[0x24]]\<rparr>)"
  by (simp add: readI2CDevice_def sys_defs sample_dev_def)

section \<open>Bytes and words\<close>

lemma uint_and_0F: "uint (c AND 0x0F :: byte) \<le> 15"
  using word_and_le1 [of c "0x0F"] by (simp add: word_le_def)

lemma sint_eq_uint_small: "uint (c :: byte) < 128 \<Longrightarrow> sint c = uint c"
proof -
  assume "uint c < 128"
  moreover have "- (2 ^ 7) \<le> uint c" by (rule order_trans [of _ 0]) simp_all
  ultimately have "signed_take_bit 7 (uint c) = uint c"
    by (intro signed_take_bit_int_eq_self) simp_all
  then show ?thesis by (simp add: sint_uint)
qed

text \<open>Below 128 the signedness of \<^verbatim>\<open>char\<close> makes no difference.\<close>

lemma char_to_int_small: "uint c < 128 \<Longrightarrow> char_to_int p c = uint c"
  by (simp add: char_to_int_def sint_eq_uint_small)

lemma char_to_int_eq_iff:
  assumes "0 \<le> k" "k < 128"
  shows "char_to_int p c = k \<longleftrightarrow> c = word_of_int k"
proof (cases "char_signed p")
  case True
  have "sint (word_of_int k :: byte) = k"
    using assms by (simp add: sint_sbintrunc' signed_take_bit_int_eq_self)
  moreover have "sint c = k \<Longrightarrow> c = word_of_int k"
    by (metis scast_eq scast_id)
  ultimately show ?thesis using True by (auto simp: char_to_int_def)
next
  case False
  have "uint (word_of_int k :: byte) = k"
    using assms by (simp add: uint_word_of_int take_bit_int_eq_self)
  moreover have "uint c = k \<Longrightarrow> c = word_of_int k"
    using word_of_int_uint [of c] by simp
  ultimately show ?thesis using False by (auto simp: char_to_int_def)
qed

text \<open>With an unsigned \<^verbatim>\<open>char\<close> the two bytes are the two halves of the \<^verbatim>\<open>short\<close>.\<close>

lemma short_of_bytes_unsigned:
  "\<not> char_signed p \<Longrightarrow> short_of_bytes p hi lo = push_bit 8 (ucast hi) OR ucast lo"
  unfolding short_of_bytes_def char_to_int_def
  apply simp
  apply (rule bit_word_eqI)
  apply (auto simp add: bit_simps)
  done

text \<open>
  With a signed \<^verbatim>\<open>char\<close> a low byte of 0x80 or more is sign-extended over the high
  byte: 0x00 and 0xFF combine to 0xFFFF, not 0x00FF.
\<close>

lemma short_of_bytes_signed_low_byte:
  "char_signed p \<Longrightarrow> short_of_bytes p 0x00 0xFF = 0xFFFF"
  by (simp add: short_of_bytes_def char_to_int_def)

lemma bit_0x80: "bit (0x80 :: byte) n \<longleftrightarrow> n = 7"
proof -
  have "(0x80 :: byte) = 2 ^ 7" by simp
  then show ?thesis by (simp only: bit_exp_iff) auto
qed

lemma and_0FFF_0800: "(t :: 16 word) AND 0x0FFF = 0 \<Longrightarrow> t AND 0x0800 = 0"
proof -
  assume a: "t AND 0x0FFF = 0"
  have "t AND 0x0800 = (t AND 0x0FFF) AND 0x0800"
    by (simp add: and.assoc)
  then show ?thesis by (simp add: a)
qed

section \<open>Properties of configuration\<close>

lemma writeI2CDeviceByte_result:
  "fst (writeI2CDeviceByte s a v w) = 0 \<longleftrightarrow> register_write_ok s w"
  by (simp add: register_write_ok_def writeI2CDeviceByte_def sys_defs Let_def
      split: list.splits prod.splits)

lemma writeI2CDeviceByte_result_code:
  "writeI2CDeviceByte s a v w = (rc, w') \<Longrightarrow> rc = 0 \<longleftrightarrow> register_write_ok s w"
  using writeI2CDeviceByte_result [of s a v w] by simp

text \<open>
  C4, as amended. \<open>setMagScale\<close> and \<open>setAccelScale\<close> return 0 exactly when the
  register write succeeds and the argument is one of the enumerators; they then store the
  documented constant of that enumerator. In every other case (the write fails, or the
  argument is no enumerator) they return 1 and store 0. The write of \<open>setAccelScale\<close>
  is issued after its read of the control register, in the world that read leaves.
\<close>

theorem scale_setters_store_documented_constant:
  "fst (setMagScale p s mscale w) =
     (if register_write_ok s w \<and> documented_mag_scale mscale \<noteq> None then 0 else 1)
   \<and> magScale (fst (snd (setMagScale p s mscale w))) =
     (if register_write_ok s w
      then (case documented_mag_scale mscale of Some c \<Rightarrow> Fin c | None \<Rightarrow> Fin 0)
      else Fin 0)
   \<and> fst (setAccelScale p s ascale u w') =
     (if register_write_ok s (snd (snd (readI2CDevice s (reg_byte p REG_CTRL2) [u] 1 w')))
         \<and> documented_accel_scale ascale \<noteq> None then 0 else 1)
   \<and> accelScale (fst (snd (setAccelScale p s ascale u w'))) =
     (if register_write_ok s (snd (snd (readI2CDevice s (reg_byte p REG_CTRL2) [u] 1 w')))
      then (case documented_accel_scale ascale of Some c \<Rightarrow> Fin c | None \<Rightarrow> Fin 0)
      else Fin 0)"
proof -
  have m: "fst (setMagScale p s mscale w) =
     (if register_write_ok s w \<and> documented_mag_scale mscale \<noteq> None then 0 else 1)
   \<and> magScale (fst (snd (setMagScale p s mscale w))) =
     (if register_write_ok s w
      then (case documented_mag_scale mscale of Some c \<Rightarrow> Fin c | None \<Rightarrow> Fin 0)
      else Fin 0)"
    by (cases mscale)
      (auto simp add: setMagScale_def documented_mag_scale_def Let_def
         dest: writeI2CDeviceByte_result_code split: prod.splits)
  obtain r buf w1 where rd: "readI2CDevice s (reg_byte p REG_CTRL2) [u] 1 w' = (r, buf, w1)"
    by (cases "readI2CDevice s (reg_byte p REG_CTRL2) [u] 1 w'") auto
  have a: "fst (setAccelScale p s ascale u w') =
     (if register_write_ok s w1 \<and> documented_accel_scale ascale \<noteq> None then 0 else 1)
   \<and> accelScale (fst (snd (setAccelScale p s ascale u w'))) =
     (if register_write_ok s w1
      then (case documented_accel_scale ascale of Some c \<Rightarrow> Fin c | None \<Rightarrow> Fin 0)
      else Fin 0)"
    by (cases ascale)
      (auto simp add: setAccelScale_def documented_accel_scale_def Let_def rd
         dest: writeI2CDeviceByte_result_code split: prod.splits)
  show ?thesis using m a by (simp add: rd)
qed

text \<open>
  On a bus that works, \<open>SCALE_ACCEL_8g\<close> and \<open>SCALE_MAG_8gauss\<close> (the values the
  constructor passes) are stored as 0.000244 and 0.00032.
\<close>

theorem scale_setters_store_documented_constant_witness:
  "fst (setMagScale lsm303d sample_dev SCALE_MAG_8gauss (live_bus [2] [])) = 0
   \<and> magScale (fst (snd (setMagScale lsm303d sample_dev SCALE_MAG_8gauss (live_bus [2] []))))
       = Fin 0.00032
   \<and> fst (setAccelScale lsm303d sample_dev SCALE_ACCEL_8g 0 (live_bus [1, 2] [ReadData [0]])) = 0
   \<and> accelScale (fst (snd (setAccelScale lsm303d sample_dev SCALE_ACCEL_8g 0
         (live_bus [1, 2] [ReadData [0]])))) = Fin 0.000244"
proof -
  have w: "register_write_ok sample_dev (live_bus [2] [])"
    by (simp add: register_write_ok_def writeI2CDeviceByte_def sys_defs live_bus_def)
  have w': "register_write_ok sample_dev
      (snd (snd (readI2CDevice sample_dev (reg_byte lsm303d REG_CTRL2) [0] 1
         (live_bus [1, 2] [ReadData [0]]))))"
    by (simp add: register_write_ok_def writeI2CDeviceByte_def readI2CDevice_def sys_defs
        live_bus_def)
  show ?thesis
    using scale_setters_store_documented_constant
      [of lsm303d sample_dev SCALE_MAG_8gauss "live_bus [2] []" SCALE_ACCEL_8g 0
         "live_bus [1, 2] [ReadData [0]]"]
    by (simp add: w w' documented_mag_scale_def documented_accel_scale_def)
qed

text \<open>
  C4 as the specification states it (every enumerator is stored as its documented
  constant, with success) fails where the bus does not accept the write: for
  \<open>SCALE_ACCEL_2g\<close> and \<open>SCALE_MAG_2gauss\<close> on a bus whose \<^verbatim>\<open>open\<close> fails, both
  setters return 1 and store 0.
\<close>

theorem scale_setters_valid_enum_failed_write:
  "fst (setAccelScale lsm303d sample_dev SCALE_ACCEL_2g 0 dead_bus) = 1
   \<and> accelScale (fst (snd (setAccelScale lsm303d sample_dev SCALE_ACCEL_2g 0 dead_bus))) = Fin 0
   \<and> fst (setMagScale lsm303d sample_dev SCALE_MAG_2gauss dead_bus) = 1
   \<and> magScale (fst (snd (setMagScale lsm303d sample_dev SCALE_MAG_2gauss dead_bus))) = Fin 0"
  by (simp add: setAccelScale_def setMagScale_def readI2CDevice_def writeI2CDeviceByte_def
      sys_defs dead_bus_def)

text \<open>
  C7, as amended. \<open>enableTempSensor\<close> changes bit 7 of CTRL5 only where its read
  delivers the register's value. On a bus where both transactions
  reach the chip and the read delivers the register's value \<open>v\<close>, the driver hands two
  buffers to \<^verbatim>\<open>write\<close>: the register address for the read, and the frame that stores
  \<open>v OR 0x80\<close> in CTRL5; bit 7 of that value is set and every other bit is the bit of
  \<open>v\<close>.
\<close>

theorem enableTempSensor_sets_only_bit7:
  assumes "open_results w = fd # fd' # os" and "0 \<le> fd" and "0 \<le> fd'"
    and "ioctl_results w = i # i' # is" and "0 \<le> i" and "0 \<le> i'"
    and "read_results w = ReadData (v # bs) # rs"
  shows "frames (snd (enableTempSensor p s w)) =
           frames w @ [[reg_byte p REG_CTRL5], [reg_byte p REG_CTRL5, v OR 0x80]]
         \<and> bit (v OR 0x80) 7 \<and> (\<forall>n. n \<noteq> 7 \<longrightarrow> bit (v OR 0x80) n = bit v n)"
proof -
  have "frames (snd (enableTempSensor p s w)) =
           frames w @ [[reg_byte p REG_CTRL5], [reg_byte p REG_CTRL5, v OR 0x80]]"
    using assms
    by (simp add: enableTempSensor_def readI2CDevice_def writeI2CDeviceByte_def sys_defs Let_def
        split: list.splits prod.splits)
  moreover have "bit (v OR 0x80) 7" by (simp only: bit_or_iff bit_0x80) simp
  moreover have "\<forall>n. n \<noteq> 7 \<longrightarrow> bit (v OR 0x80) n = bit v n"
    by (simp only: bit_or_iff bit_0x80) simp
  ultimately show ?thesis by blast
qed

text \<open>With CTRL5 holding 0x65, the frame written is CTRL5 := 0xE5.\<close>

theorem enableTempSensor_sets_only_bit7_witness:
  "frames (snd (enableTempSensor lsm303d sample_dev (live_bus [1, 2] [ReadData [0x65]]))) =
     [[0x24], [0x24, 0xE5]]"
proof -
  have "frames (snd (enableTempSensor lsm303d sample_dev (live_bus [1, 2] [ReadData [0x65]]))) =
      frames (live_bus [1, 2] [ReadData [0x65]])
        @ [[reg_byte lsm303d REG_CTRL5], [reg_byte lsm303d REG_CTRL5, 0x65 OR 0x80]]"
    using enableTempSensor_sets_only_bit7
      [of "live_bus [1, 2] [ReadData [0x65]]" 3 3 "[3, 3, 3, 3, 3, 3]" 0 0 "[0, 0, 0, 0, 0, 0]"
         "0x65" "[]" "[]" lsm303d sample_dev]
    by (simp add: live_bus_def)
  then show ?thesis by (simp add: live_bus_def reg_byte_def lsm303d_def)
qed

text \<open>
  C7 as the specification states it holds for every prior value of the register. It
  fails where the read does not deliver that value: \<open>enableTempSensor\<close> does not
  look at the result of \<open>readI2CDevice\<close>, \<^verbatim>\<open>buf\<close> keeps its initial 0x00, and the
  frame written is CTRL5 := 0x80 with return code 0. In the first world the \<^verbatim>\<open>open\<close>
  of the read fails and the answer 0x65 of the chip is never fetched; in the second the
  \<^verbatim>\<open>read\<close> itself fails. A register holding 0x65 would have needed 0xE5.
\<close>

theorem enableTempSensor_failed_read_writes_0x80:
  "enableTempSensor lsm303d sample_dev
     \<lparr>open_results = [- 1, 3], ioctl_results = [0], write_results = [2],
      read_results = [ReadData [0x65]], open_fds = [], frames = []\<rparr>
   = (0, \<lparr>open_results = [], ioctl_results = [], write_results = [],
          read_results = [ReadData [0x65]], open_fds = [], frames = [[0x24, 0x80]]\<rparr>)
   \<and> enableTempSensor lsm303d sample_dev (live_bus [1, 2] [ReadFail])
   = (0, \<lparr>open_results = [3, 3, 3, 3, 3, 3], ioctl_results = [0, 0, 0, 0, 0, 0],
          write_results = [], read_results = [], open_fds = [],
          frames = [[0x24], [0x24, 0x80]]\<rparr>)
   \<and> (0x65 OR 0x80 :: byte) \<noteq> 0x80"
  by (simp add: enableTempSensor_def readI2CDevice_def writeI2CDeviceByte_def sys_defs
      live_bus_def reg_byte_def lsm303d_def Let_def)

section \<open>Properties of conversion and geometry\<close>

text \<open>
  C3 (a 12-bit field of 0xFFF, the two's-complement \<open>-1\<close>, converts to 24.875 degrees).
  The code complements the field (XOR with 0x0FFF) and never adds the 1 that a
  two's-complement negation needs, so every negative reading is one count (0.125
  degrees) too warm. Evaluated with TEMP_OUT_H = 0x0F and TEMP_OUT_L = 0xFF on the
  ARM target: the result is 25.0, the same as for a field of 0.
\<close>

theorem getTemperature_0xFFF_is_25:
  "celsius (getTemperature lsm303d
     (sample_dev\<lparr>dataBuffer := (replicate 64 0)[0x05 := 0xFF, 0x06 := 0x0F]\<rparr>)) = Fin 25"
  by (simp add: getTemperature_def lsm303d_def sample_dev_def short_of_bytes_def
      char_to_int_def fp_of_int_def)

text \<open>The same on every register map, wherever \<^verbatim>\<open>char\<close> is unsigned.\<close>

lemma getTemperature_field_0xFFF:
  assumes "\<not> char_signed p"
    and "dataBuffer s ! reg_addr p REG_TEMP_OUT_H = 0x0F"
    and "dataBuffer s ! reg_addr p REG_TEMP_OUT_L = 0xFF"
  shows "celsius (getTemperature p s) = Fin 25"
  using assms
  by (simp add: getTemperature_def short_of_bytes_def char_to_int_def fp_of_int_def)

text \<open>
  Where \<^verbatim>\<open>char\<close> is signed, the low byte 0xFF is sign-extended over the high byte and
  the bits above the field survive the XOR: the same registers read as 537 degrees.
\<close>

lemma getTemperature_0xFFF_signed_char:
  "celsius (getTemperature (lsm303d\<lparr>char_signed := True\<rparr>)
     (sample_dev\<lparr>dataBuffer := (replicate 64 0)[0x05 := 0xFF, 0x06 := 0x0F]\<rparr>)) = Fin 537"
  by (simp add: getTemperature_def lsm303d_def sample_dev_def short_of_bytes_def
      char_to_int_def fp_of_int_def)

text \<open>The part of C3 that holds: a field of 0x000 converts to exactly 25 degrees.\<close>

lemma getTemperature_zero_field:
  assumes "short_of_bytes p (dataBuffer s ! reg_addr p REG_TEMP_OUT_H)
             (dataBuffer s ! reg_addr p REG_TEMP_OUT_L) AND 0x0FFF = 0"
  shows "celsius (getTemperature p s) = Fin 25"
  using assms and_0FFF_0800 [OF assms]
  by (simp add: getTemperature_def Let_def fp_of_int_def)

text \<open>
  The tilt formula on finite operands: the angle in degrees where the denominator is not
  zero, and the limits \<open>\<plusminus>90\<close> (or NaN for \<open>0/0\<close>) where it is.
\<close>

lemma tilt_angle:
  "fp_div (fp_mul (Fin 180)
      (fp_atan (fp_div (Fin x) (fp_sqrt (fp_add (fp_mul (Fin y) (Fin y)) (fp_mul (Fin z) (Fin z)))))))
      (Fin pi) =
   (if y = 0 \<and> z = 0 then (if x = 0 then NaN else if 0 < x then Fin 90 else Fin (- 90))
    else Fin (180 * arctan (x / sqrt (y\<^sup>2 + z\<^sup>2)) / pi))"
proof -
  have nn: "\<not> y * y + z * z < 0" by (simp add: not_less)
  have z0: "y * y + z * z = 0 \<longleftrightarrow> y = 0 \<and> z = 0" by (rule sum_squares_eq_zero_iff)
  show ?thesis
    by (simp add: nn z0 power2_eq_square)
qed

text \<open>
  C8: for finite acceleration components \<open>x\<close>, \<open>y\<close>, \<open>z\<close>, \<open>calculatePitchAndRoll\<close>
  sets \<open>pitch\<close> to \<open>atan (x / sqrt (y\<^sup>2 + z\<^sup>2))\<close> and \<open>roll\<close> to
  \<open>atan (y / sqrt (x\<^sup>2 + z\<^sup>2))\<close>, in degrees, wherever the denominator is not zero. For an
  acceleration along \<open>z\<close> only, pitch and roll are 0; for a positive acceleration along
  \<open>x\<close> only, the quotient is \<open>+\<infinity>\<close>, pitch is 90 and roll is 0.
\<close>

theorem calculatePitchAndRoll_formula:
  assumes "accelX s = Fin x" and "accelY s = Fin y" and "accelZ s = Fin z"
  shows "(y \<noteq> 0 \<or> z \<noteq> 0 \<longrightarrow>
            pitch (calculatePitchAndRoll s) = Fin (180 * arctan (x / sqrt (y\<^sup>2 + z\<^sup>2)) / pi))
       \<and> (x \<noteq> 0 \<or> z \<noteq> 0 \<longrightarrow>
            roll (calculatePitchAndRoll s) = Fin (180 * arctan (y / sqrt (x\<^sup>2 + z\<^sup>2)) / pi))
       \<and> (x = 0 \<and> y = 0 \<and> 0 < z \<longrightarrow>
            pitch (calculatePitchAndRoll s) = Fin 0 \<and> roll (calculatePitchAndRoll s) = Fin 0)
       \<and> (0 < x \<and> y = 0 \<and> z = 0 \<longrightarrow>
            pitch (calculatePitchAndRoll s) = Fin 90 \<and> roll (calculatePitchAndRoll s) = Fin 0)"
proof -
  have p: "pitch (calculatePitchAndRoll s) =
      (if y = 0 \<and> z = 0 then (if x = 0 then NaN else if 0 < x then Fin 90 else Fin (- 90))
       else Fin (180 * arctan (x / sqrt (y\<^sup>2 + z\<^sup>2)) / pi))"
    using tilt_angle [of x y z] by (simp add: calculatePitchAndRoll_def Let_def assms)
  have r: "roll (calculatePitchAndRoll s) =
      (if x = 0 \<and> z = 0 then (if y = 0 then NaN else if 0 < y then Fin 90 else Fin (- 90))
       else Fin (180 * arctan (y / sqrt (x\<^sup>2 + z\<^sup>2)) / pi))"
    using tilt_angle [of y x z] by (simp add: calculatePitchAndRoll_def Let_def assms)
  show ?thesis
    unfolding p r by auto
qed

text \<open>The two orientations of the claim, at 1 g: flat, and standing on the x axis.\<close>

theorem calculatePitchAndRoll_formula_witness:
  "pitch (calculatePitchAndRoll (sample_dev\<lparr>accelZ := Fin 1\<rparr>)) = Fin 0
   \<and> roll (calculatePitchAndRoll (sample_dev\<lparr>accelZ := Fin 1\<rparr>)) = Fin 0
   \<and> pitch (calculatePitchAndRoll (sample_dev\<lparr>accelX := Fin 1\<rparr>)) = Fin 90
   \<and> roll (calculatePitchAndRoll (sample_dev\<lparr>accelX := Fin 1\<rparr>)) = Fin 0"
  using calculatePitchAndRoll_formula [of "sample_dev\<lparr>accelZ := Fin 1\<rparr>" 0 0 1]
    calculatePitchAndRoll_formula [of "sample_dev\<lparr>accelX := Fin 1\<rparr>" 1 0 0]
  by (simp add: sample_dev_def)

section \<open>Properties of the FIFO mode\<close>

text \<open>
  C10: \<open>setAccelFIFOMode\<close> reads CTRL0, writes the mode registers, reads the mode back
  with \<open>getAccelFIFOMode\<close>, and stores the requested mode in \<open>accelFIFOMode\<close> exactly
  when the mode read back is the requested one; otherwise the object is unchanged. The
  result is 0 either way.
\<close>

theorem setAccelFIFOMode_caches_confirmed_mode:
  assumes "readI2CDevice s (reg_byte p REG_CTRL0) [0x00] 1 w = (r, val, w1)"
    and "w2 = (if mode = ACCEL_FIFO_STREAM
               then snd (writeI2CDeviceByte s (reg_byte p REG_CTRL0) 0x40 w1) else w1)"
    and "writeI2CDeviceByte s (reg_byte p REG_FIFO_CTRL)
           (if mode = ACCEL_FIFO_STREAM then 0x40 else 0x00) w2 = (rc, w3)"
    and "getAccelFIFOMode p s w3 = (m, w4)"
  shows "setAccelFIFOMode p s mode w =
           (0, (if m = mode then s\<lparr>accelFIFOMode := mode\<rparr> else s), w4)"
  using assms by (cases mode) (simp_all add: setAccelFIFOMode_def)

text \<open>
  On a working bus: the chip answers the read-back with 0x40 and the cache becomes
  \<open>ACCEL_FIFO_STREAM\<close>; it answers with 0x00 and the cache stays as it was. Both calls
  return 0.
\<close>

theorem setAccelFIFOMode_caches_confirmed_mode_witness:
  "setAccelFIFOMode lsm303d sample_dev ACCEL_FIFO_STREAM
     (live_bus [1, 2, 2, 1] [ReadData [0x00], ReadData [0x40]])
   = (0, sample_dev\<lparr>accelFIFOMode := ACCEL_FIFO_STREAM\<rparr>,
      \<lparr>open_results = [3, 3, 3, 3], ioctl_results = [0, 0, 0, 0], write_results = [],
       read_results = [], open_fds = [],
       frames = [[0x1F], [0x1F, 0x40], [0x2E, 0x40], [0x2E]]\<rparr>)
   \<and> setAccelFIFOMode lsm303d sample_dev ACCEL_FIFO_STREAM
     (live_bus [1, 2, 2, 1] [ReadData [0x00], ReadData [0x00]])
   = (0, sample_dev,
      \<lparr>open_results = [3, 3, 3, 3], ioctl_results = [0, 0, 0, 0], write_results = [],
       read_results = [], open_fds = [],
       frames = [[0x1F], [0x1F, 0x40], [0x2E, 0x40], [0x2E]]\<rparr>)"
proof -
  have triple: "\<And>x :: int \<times> byte list \<times> i2c_world. x = (fst x, fst (snd x), snd (snd x))"
    by simp
  have pair: "\<And>x :: 'a \<times> i2c_world. x = (fst x, snd x)"
    by simp
  note run = setAccelFIFOMode_caches_confirmed_mode [OF triple refl pair pair]
  show ?thesis
    using run [where s = sample_dev and p = lsm303d and mode = ACCEL_FIFO_STREAM
                and w = "live_bus [1, 2, 2, 1] [ReadData [0x00], ReadData [0x40]]"]
      run [where s = sample_dev and p = lsm303d and mode = ACCEL_FIFO_STREAM
                and w = "live_bus [1, 2, 2, 1] [ReadData [0x00], ReadData [0x00]]"]
    by (simp add: getAccelFIFOMode_def readI2CDevice_def writeI2CDeviceByte_def sys_defs
        live_bus_def reg_byte_def lsm303d_def char_to_int_def Let_def)
qed

section \<open>Properties of the read pipeline\<close>

text \<open>
  C9: the count \<open>readAccelFIFO\<close> returns is the low four bits of the byte its first
  read leaves in \<^verbatim>\<open>val\<close> (the FIFO source register, or the initial 0 if nothing was
  read), plus one, so it lies between 1 and 16; and \<open>averageAccelFIFO\<close>, called with
  that count on the object \<open>readAccelFIFO\<close> returns, as \<open>readFullSensorState\<close> does,
  returns 0: it does not take the branch for \<^verbatim>\<open>slots <= 0\<close>, which returns 1.
\<close>

theorem readAccelFIFO_count:
  "(case readAccelFIFO p s w of
      (slots, s', w') \<Rightarrow>
         slots = uint (hd (fst (snd (readI2CDevice s (reg_byte p REG_FIFO_SRC) [0x00] 1 w)))
                        AND 0x0F) + 1
         \<and> 1 \<le> slots \<and> slots \<le> 16
         \<and> fst (averageAccelFIFO p s' slots) = 0)"
proof -
  obtain r val w1 where rd: "readI2CDevice s (reg_byte p REG_FIFO_SRC) [0x00] 1 w = (r, val, w1)"
    by (cases "readI2CDevice s (reg_byte p REG_FIFO_SRC) [0x00] 1 w") auto
  obtain r' fifo w2 where rd':
    "readI2CDevice s (reg_byte p REG_OUT_X_L_A) (accelFIFO s) (int (ACCEL_FIFO_SIZE p)) w1
       = (r', fifo, w2)"
    by (cases "readI2CDevice s (reg_byte p REG_OUT_X_L_A) (accelFIFO s)
                 (int (ACCEL_FIFO_SIZE p)) w1") auto
  let ?v = "hd val AND 0x0F"
  have le: "uint ?v \<le> 15" by (rule uint_and_0F)
  then have c: "char_to_int p ?v = uint ?v" by (intro char_to_int_small) simp
  have "0 \<le> uint ?v" by (rule uint_nonnegative)
  then have ge: "\<not> uint ?v + 1 \<le> 0" by linarith
  have run: "readAccelFIFO p s w = (uint ?v + 1, s\<lparr>accelFIFO := fifo\<rparr>, w2)"
    by (simp add: readAccelFIFO_def rd rd' c)
  have avg: "fst (averageAccelFIFO p (s\<lparr>accelFIFO := fifo\<rparr>) (uint ?v + 1)) = 0"
    using ge by (simp add: averageAccelFIFO_def Let_def split: prod.splits)
  show ?thesis
    using le ge avg by (simp add: run rd)
qed

section \<open>Properties of FIFO averaging\<close>

lemma fp_mul_commute: "fp_mul a b = fp_mul b a"
  by (cases a; cases b) (simp_all add: mult.commute)

text \<open>The loop of \<open>averageAccelFIFO\<close> computes the three sums of the negated samples.\<close>

lemma averageAccelFIFO_loop:
  "fold (averageAccelFIFO_step p fifo) [0..<n] (0, 0, 0) =
     (sum_list (map (\<lambda>i. sint ((NOT (short_of_bytes p (fifo ! (i * 6 + 1)) (fifo ! (i * 6)))) + 1))
        [0..<n]),
      sum_list (map (\<lambda>i. sint ((NOT (short_of_bytes p (fifo ! (i * 6 + 3)) (fifo ! (i * 6 + 2)))) + 1))
        [0..<n]),
      sum_list (map (\<lambda>i. sint ((NOT (short_of_bytes p (fifo ! (i * 6 + 5)) (fifo ! (i * 6 + 4)))) + 1))
        [0..<n]))"
  by (induction n) (simp_all add: averageAccelFIFO_step_def)

lemma sum_list_sint_bound:
  "\<bar>sum_list (map (\<lambda>i. sint (f i :: 16 word)) [0..<n])\<bar> \<le> 32768 * int n"
proof (induction n)
  case 0
  then show ?case by simp
next
  case (Suc n)
  have "- 32768 \<le> sint (f n)" using sint_ge [of "f n"] by simp
  moreover have "sint (f n) < 32768" using sint_lt [of "f n"] by simp
  ultimately show ?case using Suc by simp
qed

text \<open>
  The sums stay within the range of a 32-bit \<^verbatim>\<open>int\<close> for every slot count below
  65536: no signed overflow occurs in the loop.
\<close>

lemma averageAccelFIFO_sums_bound:
  assumes "fold (averageAccelFIFO_step p fifo) [0..<n] (0, 0, 0) = (sumX, sumY, sumZ)"
    and "n < 65536"
  shows "\<bar>sumX\<bar> < 2 ^ 31 \<and> \<bar>sumY\<bar> < 2 ^ 31 \<and> \<bar>sumZ\<bar> < 2 ^ 31"
proof -
  have b: "32768 * int n < 2 ^ 31" using assms(2) by simp
  have "\<bar>sumX\<bar> \<le> 32768 * int n" "\<bar>sumY\<bar> \<le> 32768 * int n" "\<bar>sumZ\<bar> \<le> 32768 * int n"
    using assms(1) sum_list_sint_bound unfolding averageAccelFIFO_loop by auto
  then show ?thesis using b by linarith
qed

lemma fifo_sample_unsigned:
  assumes "\<not> char_signed p"
  shows "short_of_bytes p (fifo ! (i * 6 + 1)) (fifo ! (i * 6)) = fifo_sample fifo i 0"
    and "short_of_bytes p (fifo ! (i * 6 + 3)) (fifo ! (i * 6 + 2)) = fifo_sample fifo i 1"
    and "short_of_bytes p (fifo ! (i * 6 + 5)) (fifo ! (i * 6 + 4)) = fifo_sample fifo i 2"
proof -
  have x: "6 * i + 2 * 0 = i * 6" by simp
  have y: "6 * i + 2 * 1 = i * 6 + 2" "i * 6 + 2 + 1 = i * 6 + 3" by simp_all
  have z: "6 * i + 2 * 2 = i * 6 + 4" "i * 6 + 4 + 1 = i * 6 + 5" by simp_all
  show "short_of_bytes p (fifo ! (i * 6 + 1)) (fifo ! (i * 6)) = fifo_sample fifo i 0"
    unfolding fifo_sample_def x by (rule short_of_bytes_unsigned [OF assms])
  show "short_of_bytes p (fifo ! (i * 6 + 3)) (fifo ! (i * 6 + 2)) = fifo_sample fifo i 1"
    unfolding fifo_sample_def y by (rule short_of_bytes_unsigned [OF assms])
  show "short_of_bytes p (fifo ! (i * 6 + 5)) (fifo ! (i * 6 + 4)) = fifo_sample fifo i 2"
    unfolding fifo_sample_def z by (rule short_of_bytes_unsigned [OF assms])
qed

text \<open>
  C2: where \<^verbatim>\<open>char\<close> is unsigned, as on the ARM target, \<open>averageAccelFIFO\<close> with
  \<open>slots \<ge> 1\<close> on a FIFO buffer that holds \<open>slots\<close> entries returns 0 and sets
  \<open>accelX\<close>, \<open>accelY\<close> and \<open>accelZ\<close> to \<open>accelScale\<close> times the truncating quotient
  by \<open>slots\<close> of the sum, over the first \<open>slots\<close> entries of the buffer, of the
  complement-plus-one of the entry's 16-bit sample \<^verbatim>\<open>(high << 8) | low\<close> for that axis;
  nothing else in the object changes. (The source does not compare \<open>slots\<close> with the
  size of the array; beyond it there are no entries to speak of.)
\<close>

theorem averageAccelFIFO_average:
  assumes "\<not> char_signed p" and "1 \<le> slots" and "6 * nat slots \<le> length (accelFIFO s)"
  shows "averageAccelFIFO p s slots =
           (0, s\<lparr>accelX := fp_mul (accelScale s) (fp_of_int (averaged_axis (accelFIFO s) slots 0)),
                  accelY := fp_mul (accelScale s) (fp_of_int (averaged_axis (accelFIFO s) slots 1)),
                  accelZ := fp_mul (accelScale s) (fp_of_int (averaged_axis (accelFIFO s) slots 2))\<rparr>)"
proof -
  have loop: "fold (averageAccelFIFO_step p (accelFIFO s)) [0..<nat slots] (0, 0, 0) =
      (sum_list (map (\<lambda>i. negated_sample (accelFIFO s) i 0) [0..<nat slots]),
       sum_list (map (\<lambda>i. negated_sample (accelFIFO s) i 1) [0..<nat slots]),
       sum_list (map (\<lambda>i. negated_sample (accelFIFO s) i 2) [0..<nat slots]))"
    by (simp only: averageAccelFIFO_loop fifo_sample_unsigned [OF assms(1)] negated_sample_def)
  have pos: "\<not> slots \<le> 0" using assms(2) by simp
  show ?thesis
    by (simp add: averageAccelFIFO_def pos loop convertAcceleration_def averaged_axis_def
        fp_mul_commute)
qed

text \<open>
  Four entries: the X samples 1, 2, 3, 5 negate to a sum of \<open>-11\<close>, whose quotient by 4
  truncates to \<open>-2\<close>; the Y samples sum to 5 after negation, quotient 1; the Z samples
  0x4000 give \<open>-16384\<close>.
\<close>

theorem averageAccelFIFO_average_witness:
  "averageAccelFIFO lsm303d fifo_dev 4 =
     (0, fifo_dev\<lparr>accelX := Fin (- 0.000488), accelY := Fin 0.000244,
                    accelZ := Fin (- 3.997696)\<rparr>)"
proof -
  have u: "\<not> char_signed lsm303d" by (simp add: lsm303d_def)
  have x: "averaged_axis (accelFIFO fifo_dev) 4 0 = - 2"
    by code_simp
  have y: "averaged_axis (accelFIFO fifo_dev) 4 (Suc 0) = 1"
    by code_simp
  have z: "averaged_axis (accelFIFO fifo_dev) 4 2 = - 16384"
    by code_simp
  have sc: "accelScale fifo_dev = Fin 0.000244" by (simp add: fifo_dev_def)
  have len: "6 * nat 4 \<le> length (accelFIFO fifo_dev)" by (simp add: fifo_dev_def)
  show ?thesis
    using averageAccelFIFO_average [of lsm303d 4 fifo_dev, OF u _ len]
    by (simp add: x y z sc fp_of_int_def)
qed

section \<open>Properties of a poll\<close>

text \<open>What the steps before the identity check leave alone.\<close>

lemma averageAccelFIFO_frame:
  "magX (snd (averageAccelFIFO p s n)) = magX s"
  "magY (snd (averageAccelFIFO p s n)) = magY s"
  "magZ (snd (averageAccelFIFO p s n)) = magZ s"
  "celsius (snd (averageAccelFIFO p s n)) = celsius s"
  "pitch (snd (averageAccelFIFO p s n)) = pitch s"
  "roll (snd (averageAccelFIFO p s n)) = roll s"
  "dataBuffer (snd (averageAccelFIFO p s n)) = dataBuffer s"
  by (simp_all add: averageAccelFIFO_def Let_def split: prod.splits)

lemma readAccelFIFO_frame:
  "magX (fst (snd (readAccelFIFO p s w))) = magX s"
  "magY (fst (snd (readAccelFIFO p s w))) = magY s"
  "magZ (fst (snd (readAccelFIFO p s w))) = magZ s"
  "celsius (fst (snd (readAccelFIFO p s w))) = celsius s"
  "pitch (fst (snd (readAccelFIFO p s w))) = pitch s"
  "roll (fst (snd (readAccelFIFO p s w))) = roll s"
  "dataBuffer (fst (snd (readAccelFIFO p s w))) = dataBuffer s"
  by (simp_all add: readAccelFIFO_def Let_def split: prod.splits)

lemma conversion_frame:
  "dataBuffer (calculatePitchAndRoll s) = dataBuffer s"
  "dataBuffer (getTemperature p s) = dataBuffer s"
  by (simp_all add: calculatePitchAndRoll_def getTemperature_def Let_def split: prod.splits)

text \<open>
  The state and the world after the reads and the acceleration update of
  \<open>readFullSensorState\<close>, before the identity check.
\<close>

lemma readFullSensorState_result:
  "\<exists>s1. magX s1 = magX s \<and> magY s1 = magY s \<and> magZ s1 = magZ s \<and> celsius s1 = celsius s
        \<and> pitch s1 = pitch s \<and> roll s1 = roll s
        \<and> dataBuffer (fst (snd (readFullSensorState p s w))) = dataBuffer s1
        \<and> (if dataBuffer s1 ! reg_addr p REG_WHO_AM_I \<noteq> 0x49
            then fst (readFullSensorState p s w) = 1 \<and> fst (snd (readFullSensorState p s w)) = s1
            else fst (readFullSensorState p s w) = 0)"
proof -
  have id: "\<And>c. char_to_int p c \<noteq> 0x49 \<longleftrightarrow> c \<noteq> 0x49"
    using char_to_int_eq_iff [of "0x49" p] by simp
  show ?thesis
  proof (cases "accelFIFOMode s = ACCEL_FIFO_STREAM")
    case True
    obtain r1 b1 w1 where 1: "readI2CDevice_at s (reg_byte p REG_TEMP_OUT_L) (dataBuffer s)
        (reg_addr p REG_TEMP_OUT_L)
        ((int (reg_addr p REG_OUT_Z_H_M) - int (reg_addr p REG_TEMP_OUT_L)) + 1) w = (r1, b1, w1)"
      using prod_cases3 by blast
    obtain r2 b2 w2 where 2: "readI2CDevice_at s (reg_byte p REG_WHO_AM_I) b1
        (reg_addr p REG_WHO_AM_I) 1 w1 = (r2, b2, w2)"
      using prod_cases3 by blast
    obtain r3 b3 w3 where 3: "readI2CDevice_at s (reg_byte p REG_INT_CTRL_M) b2
        (reg_addr p REG_INT_CTRL_M)
        ((int (reg_addr p REG_STATUS_A) - int (reg_addr p REG_INT_CTRL_M)) + 1) w2 = (r3, b3, w3)"
      using prod_cases3 by blast
    obtain r4 b4 w4 where 4: "readI2CDevice_at s (reg_byte p REG_FIFO_CTRL) b3
        (reg_addr p REG_FIFO_CTRL)
        (int (LMS303_I2C_BUFFER p) - int (reg_addr p REG_FIFO_CTRL)) w3 = (r4, b4, w4)"
      using prod_cases3 by blast
    obtain n s5 w5 where 5: "readAccelFIFO p (s\<lparr>dataBuffer := b4\<rparr>) w4 = (n, s5, w5)"
      using prod_cases3 by blast
    obtain ra s6 where 6: "averageAccelFIFO p s5 n = (ra, s6)"
      by (cases "averageAccelFIFO p s5 n") auto
    have s5: "magX s5 = magX s" "magY s5 = magY s" "magZ s5 = magZ s" "celsius s5 = celsius s"
      "pitch s5 = pitch s" "roll s5 = roll s" "dataBuffer s5 = b4"
      using readAccelFIFO_frame [of p "s\<lparr>dataBuffer := b4\<rparr>" w4] by (simp_all add: 5)
    have s6: "magX s6 = magX s" "magY s6 = magY s" "magZ s6 = magZ s" "celsius s6 = celsius s"
      "pitch s6 = pitch s" "roll s6 = roll s" "dataBuffer s6 = b4"
      using averageAccelFIFO_frame [of p s5 n] by (simp_all add: 6 s5)
    show ?thesis
      by (rule exI [of _ s6])
        (simp add: readFullSensorState_def True 1 2 3 4 5 6 s6 id conversion_frame Let_def)
  next
    case False
    obtain r1 b1 w1 where 1: "readI2CDevice_at s (reg_byte p REG_WHO_AM_I) (dataBuffer s)
        (reg_addr p REG_WHO_AM_I)
        (int (LMS303_I2C_BUFFER p) - int (reg_addr p REG_WHO_AM_I)) w = (r1, b1, w1)"
      using prod_cases3 by blast
    let ?s1 = "s\<lparr>dataBuffer := b1\<rparr>"
    let ?s2 = "?s1\<lparr>accelX := convertAcceleration_regs p ?s1
                       (reg_addr p REG_OUT_X_H_A) (reg_addr p REG_OUT_X_L_A)\<rparr>"
    let ?s3 = "?s2\<lparr>accelY := convertAcceleration_regs p ?s2
                       (reg_addr p REG_OUT_Y_H_A) (reg_addr p REG_OUT_Y_L_A)\<rparr>"
    let ?s4 = "?s3\<lparr>accelZ := convertAcceleration_regs p ?s3
                       (reg_addr p REG_OUT_Z_H_A) (reg_addr p REG_OUT_Z_L_A)\<rparr>"
    show ?thesis
      by (rule exI [of _ ?s4])
        (simp add: readFullSensorState_def False 1 id conversion_frame Let_def)
  qed
qed

text \<open>
  C1, as amended. A poll whose identity byte in the buffer is not 0x49 returns 1 and
  leaves \<open>magX\<close>, \<open>magY\<close>, \<open>magZ\<close>, \<open>celsius\<close>, \<open>pitch\<close> and \<open>roll\<close> as they were.
  Nothing is said about \<open>accelX\<close>, \<open>accelY\<close> and \<open>accelZ\<close>: the poll recomputes them
  from the data just read before it checks the identity byte.
\<close>

theorem readFullSensorState_sync_error:
  assumes "readFullSensorState p s w = (r, s', w')"
    and "dataBuffer s' ! reg_addr p REG_WHO_AM_I \<noteq> 0x49"
  shows "r = 1 \<and> magX s' = magX s \<and> magY s' = magY s \<and> magZ s' = magZ s
         \<and> celsius s' = celsius s \<and> pitch s' = pitch s \<and> roll s' = roll s"
proof -
  have "\<exists>s1. magX s1 = magX s \<and> magY s1 = magY s \<and> magZ s1 = magZ s
        \<and> celsius s1 = celsius s \<and> pitch s1 = pitch s \<and> roll s1 = roll s
        \<and> dataBuffer s' = dataBuffer s1
        \<and> (if dataBuffer s1 ! reg_addr p REG_WHO_AM_I \<noteq> 0x49 then r = 1 \<and> s' = s1
            else r = 0)"
    using readFullSensorState_result [of s p w] unfolding assms(1) fst_conv snd_conv .
  then obtain s1 where s1: "magX s1 = magX s" "magY s1 = magY s" "magZ s1 = magZ s"
      "celsius s1 = celsius s" "pitch s1 = pitch s" "roll s1 = roll s"
      "dataBuffer s' = dataBuffer s1"
    and c: "if dataBuffer s1 ! reg_addr p REG_WHO_AM_I \<noteq> 0x49 then r = 1 \<and> s' = s1 else r = 0"
    by blast
  from assms(2) s1(7) have "dataBuffer s1 ! reg_addr p REG_WHO_AM_I \<noteq> 0x49" by simp
  with c have "r = 1" "s' = s1" by simp_all
  with s1 show ?thesis by simp
qed

text \<open>The bytes the poll on \<open>desync_bus\<close> leaves in the register buffer.\<close>

lemma desync_buffer:
  "(replicate 15 0 @ (replicate 49 0)[25 := 1 :: byte]) ! 15 = 0"
  "(replicate 15 0 @ (replicate 49 0)[25 := 1 :: byte]) ! 40 = 1"
  "(replicate 15 0 @ (replicate 49 0)[25 := 1 :: byte]) ! 41 = 0"
  by code_simp+

text \<open>
  The poll of \<open>desync_dev\<close> on \<open>desync_bus\<close> reads the identity byte 0x00: it returns 1
  and the magnetometer, temperature and tilt readings are those of before.
\<close>

theorem readFullSensorState_sync_error_witness:
  "dataBuffer (fst (snd (readFullSensorState lsm303d desync_dev desync_bus)))
     ! reg_addr lsm303d REG_WHO_AM_I = 0x00
   \<and> fst (readFullSensorState lsm303d desync_dev desync_bus) = 1
   \<and> magX (fst (snd (readFullSensorState lsm303d desync_dev desync_bus))) = Fin 0
   \<and> celsius (fst (snd (readFullSensorState lsm303d desync_dev desync_bus))) = Fin 0
   \<and> pitch (fst (snd (readFullSensorState lsm303d desync_dev desync_bus))) = Fin 0"
proof -
  have b: "dataBuffer (fst (snd (readFullSensorState lsm303d desync_dev desync_bus)))
     ! reg_addr lsm303d REG_WHO_AM_I = 0x00"
    by (simp add: readFullSensorState_def readI2CDevice_at_def readI2CDevice_def sys_defs
        lsm303d_def desync_dev_def desync_bus_def live_bus_def sample_dev_def reg_byte_def
        char_to_int_def Let_def desync_buffer)
  have "readFullSensorState lsm303d desync_dev desync_bus =
      (fst (readFullSensorState lsm303d desync_dev desync_bus),
       fst (snd (readFullSensorState lsm303d desync_dev desync_bus)),
       snd (snd (readFullSensorState lsm303d desync_dev desync_bus)))"
    by simp
  from readFullSensorState_sync_error [OF this] b show ?thesis
    by (simp add: desync_dev_def sample_dev_def)
qed

text \<open>
  C1 as the specification states it also keeps \<open>accelX\<close>, \<open>accelY\<close> and \<open>accelZ\<close>
  unchanged. The same poll returns 1 with the identity byte 0x00 in the buffer, and
  \<open>accelX\<close>, 0 before the poll, is \<open>1 * 0.000244\<close> after it.
\<close>

theorem readFullSensorState_sync_error_changes_accel:
  "fst (readFullSensorState lsm303d desync_dev desync_bus) = 1
   \<and> dataBuffer (fst (snd (readFullSensorState lsm303d desync_dev desync_bus)))
       ! reg_addr lsm303d REG_WHO_AM_I = 0x00
   \<and> accelX desync_dev = Fin 0
   \<and> accelX (fst (snd (readFullSensorState lsm303d desync_dev desync_bus))) = Fin 0.000244"
  by (simp add: readFullSensorState_def readI2CDevice_at_def readI2CDevice_def sys_defs
      lsm303d_def desync_dev_def desync_bus_def live_bus_def sample_dev_def reg_byte_def
      char_to_int_def convertAcceleration_regs_def short_of_bytes_def fp_of_int_def Let_def
      desync_buffer)

text \<open>
  For comparison, a poll in bypass mode that passes the identity check: it returns 0,
  the burst has filled the buffer from WHO_AM_I onwards, the acceleration is
  \<open>4096 * 0.000244\<close> g along z, the device lies flat, and the temperature registers,
  which this burst does not reach, still read as 25 degrees.
\<close>

lemma sync_buffer:
  "replicate 15 0 @ (replicate 49 0)[0 := 0x49, 30 := 0x10 :: byte]
     = (replicate 64 0)[15 := 0x49, 45 := 0x10]"
  by code_simp

lemma readFullSensorState_in_sync:
  "readFullSensorState lsm303d desync_dev sync_bus =
     (0, desync_dev\<lparr>dataBuffer := (replicate 64 0)[15 := 0x49, 45 := 0x10],
                     accelX := Fin 0, accelY := Fin 0, accelZ := Fin 0.999424,
                     celsius := Fin 25, magX := Fin 0, magY := Fin 0, magZ := Fin 0,
                     pitch := Fin 0, roll := Fin 0\<rparr>,
      \<lparr>open_results = [3, 3, 3, 3, 3, 3, 3], ioctl_results = [0, 0, 0, 0, 0, 0, 0],
       write_results = [], read_results = [], open_fds = [], frames = [[0x8F]]\<rparr>)"
  by (simp add: readFullSensorState_def readI2CDevice_at_def readI2CDevice_def sys_defs
      lsm303d_def desync_dev_def sync_bus_def live_bus_def sample_dev_def reg_byte_def
      char_to_int_def convertAcceleration_regs_def convertMagnetism_def short_of_bytes_def
      getTemperature_def calculatePitchAndRoll_def fp_of_int_def Let_def sync_buffer)

end
